theory Spec2Isabelle
  imports Main "HOL-Library.Word"
begin

unbundle bit_operations_syntax

section \<open>Values of the Go program\<close>

text \<open>
  A Go \<open>string\<close> and a \<open>[]byte\<close> are both sequences of bytes; the program converts between
  the two without changing the bytes, and never tells a nil slice from an empty one.
\<close>

type_synonym bytes = string

text \<open>A value of Go's \<open>error\<close> interface, by its message.\<close>

datatype go_error = ErrorString string

text \<open>
  A \<open>time.Time\<close>, as far as the program reads it: the seconds since the Unix epoch
  (\<open>t.Unix()\<close>) and the offset of the time's location east of UTC, in seconds.
  \<open>t.Second()\<close> is the second within the minute of the wall clock in that location, a
  value in 0..59.
\<close>

record Time =
  Unix :: int
  zone_offset :: int

definition Second :: "Time \<Rightarrow> int" where
  "Second t = (Unix t + zone_offset t) mod 60"

text \<open>
  \<open>time.Duration\<close> is an \<open>int64\<close> count of nanoseconds: arithmetic wraps, comparisons
  read the value as two's complement (\<open>sint\<close>).
\<close>

type_synonym Duration = "64 word"

definition time_Second :: Duration where
  "time_Second = 1000000000"

section \<open>Colours and the terminal\<close>

type_synonym Color = string

definition SecretFileNameEnv :: string where
  "SecretFileNameEnv = ''MFA_SECRET_FILE''"

definition esc :: char where
  "esc = char_of (27 :: nat)"

definition Red :: Color where "Red = esc # ''[31m''"
definition Green :: Color where "Green = esc # ''[32m''"
definition Yellow :: Color where "Yellow = esc # ''[33m''"
definition Blue :: Color where "Blue = esc # ''[34m''"
definition Purple :: Color where "Purple = esc # ''[35m''"
definition Cyan :: Color where "Cyan = esc # ''[36m''"
definition Gray :: Color where "Gray = esc # ''[37m''"
definition White :: Color where "White = esc # ''[97m''"

text \<open>
  \<open>TerminalColors\<close> is a Go map; indexing it with a missing key gives the zero value of
  \<open>Color\<close>, the empty string.
\<close>

definition TerminalColors_map :: "string \<rightharpoonup> Color" where
  "TerminalColors_map =
     [''red'' \<mapsto> Red, ''green'' \<mapsto> Green, ''yellow'' \<mapsto> Yellow, ''blue'' \<mapsto> Blue,
      ''purple'' \<mapsto> Purple, ''cyan'' \<mapsto> Cyan, ''gray'' \<mapsto> Gray, ''white'' \<mapsto> White]"

definition TerminalColors :: "string \<Rightarrow> Color" where
  "TerminalColors name = (case TerminalColors_map name of None \<Rightarrow> [] | Some c \<Rightarrow> c)"

text \<open>
  The interface \<open>Writer\<close>: three methods, each taking the bytes and returning an error or
  nil. An implementation acts on the world outside the device (a terminal, a file, a
  test buffer), of type \<open>'s\<close>: a method takes the world and returns the changed one.
\<close>

record 's Writer =
  Write :: "bytes \<Rightarrow> 's \<Rightarrow> go_error option \<times> 's"
  Warn :: "bytes \<Rightarrow> 's \<Rightarrow> go_error option \<times> 's"
  Error :: "bytes \<Rightarrow> 's \<Rightarrow> go_error option \<times> 's"

record Terminal =
  Pattern :: string
  Prefix :: string
  DefaultColor :: Color
  WarningColor :: Color
  ErrorColor :: Color

text \<open>
  The functional options of a terminal. Go has the option \<open>Prefix\<close> beside the field
  \<open>Prefix\<close>; here the field keeps the name and the option is \<open>Prefix_option\<close>, and so for
  every option named like a field.
\<close>

definition Prefix_option :: "string \<Rightarrow> Terminal \<Rightarrow> Terminal" where
  "Prefix_option pre t = (if pre \<noteq> [] then t\<lparr>Prefix := pre\<rparr> else t)"

definition DefaultColor_option :: "Color \<Rightarrow> Terminal \<Rightarrow> Terminal" where
  "DefaultColor_option c t = (if c \<noteq> [] then t\<lparr>DefaultColor := c\<rparr> else t)"

definition WarningColor_option :: "Color \<Rightarrow> Terminal \<Rightarrow> Terminal" where
  "WarningColor_option c t = (if c \<noteq> [] then t\<lparr>WarningColor := c\<rparr> else t)"

definition ErrorColor_option :: "Color \<Rightarrow> Terminal \<Rightarrow> Terminal" where
  "ErrorColor_option c t = (if c \<noteq> [] then t\<lparr>ErrorColor := c\<rparr> else t)"

definition NewTerminal :: "(Terminal \<Rightarrow> Terminal) list \<Rightarrow> Terminal" where
  "NewTerminal options =
     fold (\<lambda>o' term. o' term) options
       \<lparr>Pattern = CHR 0x0D # ''%s%s [%s] %s'', Prefix = ''default'',
        DefaultColor = Green, WarningColor = Cyan, ErrorColor = Red\<rparr>"

text \<open>
  What a terminal prints. One \<open>fmt.Fprintf\<close> is kept as its arguments: the pattern, the
  colour, the prefix, the reading of \<open>time.Now()\<close> and the bytes. The process has two
  streams and a clock. The three methods do not look at the result of \<open>fmt.Fprintf\<close> and
  return nil in every case; the write to the stream is taken to succeed.
\<close>

type_synonym Fprintf_args = "string \<times> Color \<times> string \<times> Time \<times> bytes"

record stdio =
  Stdout :: "Fprintf_args list"
  Stderr :: "Fprintf_args list"
  Now :: Time

definition Terminal_Write :: "Terminal \<Rightarrow> bytes \<Rightarrow> 'a stdio_scheme \<Rightarrow> go_error option \<times> 'a stdio_scheme" where
  "Terminal_Write t p w =
     (None, w\<lparr>Stdout := Stdout w @ [(Pattern t, DefaultColor t, Prefix t, Now w, p)]\<rparr>)"

definition Terminal_Warn :: "Terminal \<Rightarrow> bytes \<Rightarrow> 'a stdio_scheme \<Rightarrow> go_error option \<times> 'a stdio_scheme" where
  "Terminal_Warn t p w =
     (None, w\<lparr>Stdout := Stdout w @ [(Pattern t, WarningColor t, Prefix t, Now w, p)]\<rparr>)"

definition Terminal_Error :: "Terminal \<Rightarrow> bytes \<Rightarrow> 'a stdio_scheme \<Rightarrow> go_error option \<times> 'a stdio_scheme" where
  "Terminal_Error t p w =
     (None, w\<lparr>Stderr := Stderr w @ [(Pattern t, ErrorColor t, Prefix t, Now w, p)]\<rparr>)"

text \<open>A \<open>*Terminal\<close> used as a \<open>Writer\<close>.\<close>

definition Terminal_Writer :: "Terminal \<Rightarrow> 'a stdio_scheme Writer" where
  "Terminal_Writer t =
     \<lparr>Write = Terminal_Write t, Warn = Terminal_Warn t, Error = Terminal_Error t\<rparr>"

section \<open>The device\<close>

text \<open>
  \<open>totp.ValidateOpts\<close> and the algorithm constants are declared by the OTP library
  (\<open>github.com/pquerna/otp\<close>): \<open>otp.Algorithm\<close> and \<open>otp.Digits\<close> are integer types, the
  algorithm constants count up from \<open>AlgorithmSHA1 = 0\<close>, which is therefore the zero
  value of the type. \<open>Period\<close> and \<open>Skew\<close> are of Go's type \<open>uint\<close>.
\<close>

type_synonym Algorithm = int

definition AlgorithmSHA1 :: Algorithm where "AlgorithmSHA1 = 0"
definition AlgorithmSHA256 :: Algorithm where "AlgorithmSHA256 = 1"
definition AlgorithmSHA512 :: Algorithm where "AlgorithmSHA512 = 2"
definition AlgorithmMD5 :: Algorithm where "AlgorithmMD5 = 3"

record ValidateOpts =
  Period :: nat
  Skew :: nat
  Digits :: int
  Algorithm :: Algorithm

definition algMap_map :: "string \<rightharpoonup> Algorithm" where
  "algMap_map =
     [''SHA1'' \<mapsto> AlgorithmSHA1, ''SHA256'' \<mapsto> AlgorithmSHA256,
      ''SHA512'' \<mapsto> AlgorithmSHA512, ''MD5'' \<mapsto> AlgorithmMD5]"

text \<open>Indexing the Go map \<open>algMap\<close>: a missing key gives the zero value.\<close>

definition algMap :: "string \<Rightarrow> Algorithm" where
  "algMap name = (case algMap_map name of None \<Rightarrow> 0 | Some a \<Rightarrow> a)"

record 's MFADevice =
  Secret :: bytes
  Writer :: "'s Writer"
  UpdateFrequency :: Duration
  TOTPOptions :: ValidateOpts

text \<open>
  The code of a device runs on a state: the device itself (the methods and options take
  a pointer to it), the world its \<open>Writer\<close> acts on, and the history of the calls the
  device's code has made on its \<open>Writer\<close>, in order.
\<close>

datatype call = WriteCall bytes | WarnCall bytes | ErrorCall bytes

record 's state =
  device :: "'s MFADevice"
  world :: 's
  calls :: "call list"

text \<open>
  A piece of code either returns, in some state, or panics with an error, in the state
  it had reached: a panic that nothing recovers ends the process.
\<close>

datatype 's outcome = Normal "'s state" | Panic go_error "'s state"

text \<open>\<open>d.Writer.Write(p)\<close> and \<open>d.Writer.Warn(p)\<close>: the method's result and the state after it.\<close>

definition call_Write :: "bytes \<Rightarrow> 's state \<Rightarrow> go_error option \<times> 's state" where
  "call_Write p st =
     (case Write (Writer (device st)) p (world st) of
        (err, w) \<Rightarrow> (err, st\<lparr>world := w, calls := calls st @ [WriteCall p]\<rparr>))"

definition call_Warn :: "bytes \<Rightarrow> 's state \<Rightarrow> go_error option \<times> 's state" where
  "call_Warn p st =
     (case Warn (Writer (device st)) p (world st) of
        (err, w) \<Rightarrow> (err, st\<lparr>world := w, calls := calls st @ [WarnCall p]\<rparr>))"

text \<open>
  \<open>totp.GenerateCodeCustom\<close> is a function of the OTP library: the loop is modelled for
  any function of its type, which returns the passcode or an error.
\<close>

type_synonym generator = "string \<Rightarrow> Time \<Rightarrow> ValidateOpts \<Rightarrow> go_error + string"

text \<open>One pass through the body of the loop of \<open>Run\<close>, for the tick \<open>t\<close> of the ticker.\<close>

definition tick :: "generator \<Rightarrow> Time \<Rightarrow> 's state \<Rightarrow> 's outcome" where
  "tick GenerateCodeCustom t st =
     (case GenerateCodeCustom (Secret (device st)) t (TOTPOptions (device st)) of
        Inl err \<Rightarrow> Panic err st
      | Inr out \<Rightarrow>
          if Second t \<ge> 55 \<or> (Second t < 30 \<and> Second t \<ge> 25) then
            (case call_Warn out st of
               (Some err, st') \<Rightarrow> Panic err st'
             | (None, st') \<Rightarrow> Normal st')
          else
            (case call_Write out st of
               (Some err, st') \<Rightarrow> Panic err st'
             | (None, st') \<Rightarrow> Normal st'))"

text \<open>
  The loop of \<open>Run\<close> never ends by itself. It is modelled on the ticks the ticker has
  delivered so far: \<open>Normal\<close> says that the loop has handled them all and waits for the
  next one.
\<close>

fun loop :: "generator \<Rightarrow> Time list \<Rightarrow> 's state \<Rightarrow> 's outcome" where
  "loop GenerateCodeCustom [] st = Normal st"
| "loop GenerateCodeCustom (t # ts) st =
     (case tick GenerateCodeCustom t st of
        Panic err st' \<Rightarrow> Panic err st'
      | Normal st' \<Rightarrow> loop GenerateCodeCustom ts st')"

text \<open>\<open>time.NewTicker\<close> panics on an interval that is not positive.\<close>

definition Run :: "generator \<Rightarrow> Time list \<Rightarrow> 's state \<Rightarrow> 's outcome" where
  "Run GenerateCodeCustom ticks st =
     (if sint (UpdateFrequency (device st)) \<le> 0
      then Panic (ErrorString ''non-positive interval for NewTicker'') st
      else loop GenerateCodeCustom ticks st)"

text \<open>The state in which a piece of code has ended, returned or panicked.\<close>

fun final :: "'s outcome \<Rightarrow> 's state" where
  "final (Normal st) = st"
| "final (Panic err st) = st"

text \<open>The method of \<open>Writer\<close> that a call went to.\<close>

fun entry_point :: "call \<Rightarrow> string" where
  "entry_point (WriteCall p) = ''Write''"
| "entry_point (WarnCall p) = ''Warn''"
| "entry_point (ErrorCall p) = ''Error''"

section \<open>The options of a device\<close>

text \<open>
  A functional option \<open>func(*MFADevice)\<close> runs on the state of the device. \<open>Secret\<close>,
  \<open>UpdateFrequency\<close>, \<open>Digits\<close> and \<open>Algorithm\<close> are also fields, so the options carry the
  suffix \<open>_option\<close>.
\<close>

definition Secret_option :: "string \<Rightarrow> 's state \<Rightarrow> 's outcome" where
  "Secret_option secret st =
     (if secret \<noteq> [] then Normal (st\<lparr>device := (device st)\<lparr>Secret := secret\<rparr>\<rparr>)
      else Normal st)"

text \<open>
  An open \<open>*os.File\<close>, as far as the program uses it: its name, the result of \<open>Stat\<close> (an
  error, or the file's mode, a \<open>uint32\<close>) and the result of \<open>ioutil.ReadAll\<close>.
\<close>

record File =
  Name :: string
  Stat :: "go_error + 32 word"
  ReadAll :: "go_error + bytes"

text \<open>\<open>FileMode.Perm\<close>: the permission bits, \<open>m & 0o777\<close>.\<close>

definition Perm :: "32 word \<Rightarrow> 32 word" where
  "Perm m = m AND 511"

text \<open>
  The warning of \<open>SecretFromFile\<close>. The verb \<open>%q\<close> of \<open>fmt.Sprintf\<close> is the standard
  library's; \<open>quote\<close> stands for it.
\<close>

definition insecure_warning :: "(string \<Rightarrow> string) \<Rightarrow> string \<Rightarrow> bytes" where
  "insecure_warning quote name =
     ''WARNING - secret file '' @ quote name @ '' is not secure'' @ [CHR 0x0A]"

text \<open>
  \<open>SecretFromFile\<close>. The file may be nil. The comparison is \<open>stat.Mode().Perm() > 0o700\<close>,
  and \<open>0o700\<close> is 448. The result of the call of \<open>Warn\<close> is not looked at.
\<close>

definition SecretFromFile :: "(string \<Rightarrow> string) \<Rightarrow> File option \<Rightarrow> 's state \<Rightarrow> 's outcome" where
  "SecretFromFile quote file st =
     (case file of
        None \<Rightarrow> Normal st
      | Some f \<Rightarrow>
          (case Stat f of
             Inl err \<Rightarrow> Panic err st
           | Inr mode \<Rightarrow>
               let st1 = (if Perm mode > 448
                          then snd (call_Warn (insecure_warning quote (Name f)) st)
                          else st)
               in (case ReadAll f of
                     Inl err \<Rightarrow> Panic err st1
                   | Inr secret \<Rightarrow> Normal (st1\<lparr>device := (device st1)\<lparr>Secret := secret\<rparr>\<rparr>))))"

definition Output :: "'s Writer option \<Rightarrow> 's state \<Rightarrow> 's outcome" where
  "Output w st =
     (case w of
        Some w' \<Rightarrow> Normal (st\<lparr>device := (device st)\<lparr>Writer := w'\<rparr>\<rparr>)
      | None \<Rightarrow> Normal st)"

definition UpdateFrequency_option :: "Duration \<Rightarrow> 's state \<Rightarrow> 's outcome" where
  "UpdateFrequency_option p st =
     (if p \<noteq> 0 then Normal (st\<lparr>device := (device st)\<lparr>UpdateFrequency := p\<rparr>\<rparr>)
      else Normal st)"

definition RefreshPeriod :: "nat \<Rightarrow> 's state \<Rightarrow> 's outcome" where
  "RefreshPeriod per st =
     (if per \<noteq> 0
      then Normal (st\<lparr>device := (device st)\<lparr>TOTPOptions := (TOTPOptions (device st))\<lparr>Period := per\<rparr>\<rparr>\<rparr>)
      else Normal st)"

definition Digits_option :: "int \<Rightarrow> 's state \<Rightarrow> 's outcome" where
  "Digits_option dig st =
     Normal (st\<lparr>device := (device st)\<lparr>TOTPOptions := (TOTPOptions (device st))\<lparr>Digits := dig\<rparr>\<rparr>\<rparr>)"

definition Algorithm_option :: "string \<Rightarrow> 's state \<Rightarrow> 's outcome" where
  "Algorithm_option alg st =
     (if alg \<noteq> []
      then Normal (st\<lparr>device := (device st)\<lparr>TOTPOptions :=
                      (TOTPOptions (device st))\<lparr>Algorithm := algMap alg\<rparr>\<rparr>\<rparr>)
      else Normal st)"

text \<open>The loop \<open>for _, o := range options { o(device) }\<close>: a panic of an option ends it.\<close>

fun apply_options :: "('s state \<Rightarrow> 's outcome) list \<Rightarrow> 's state \<Rightarrow> 's outcome" where
  "apply_options [] st = Normal st"
| "apply_options (o' # os) st =
     (case o' st of
        Panic err st' \<Rightarrow> Panic err st'
      | Normal st' \<Rightarrow> apply_options os st')"

text \<open>
  \<open>NewMFADevice\<close>: a device with a default terminal as its writer, an update frequency
  of one second and the zero value of the TOTP options, then the options in order. No
  call has been made on the new device's writer.
\<close>

definition NewMFADevice ::
  "('a stdio_scheme state \<Rightarrow> 'a stdio_scheme outcome) list \<Rightarrow> 'a stdio_scheme \<Rightarrow> 'a stdio_scheme outcome" where
  "NewMFADevice options w =
     apply_options options
       \<lparr>device = \<lparr>Secret = [], Writer = Terminal_Writer (NewTerminal []),
                  UpdateFrequency = time_Second,
                  TOTPOptions = \<lparr>Period = 0, Skew = 0, Digits = 0, Algorithm = 0\<rparr>\<rparr>,
        world = w, calls = []\<rparr>"

section \<open>The command\<close>

text \<open>
  The flags of \<open>cmd.go\<close> after \<open>flag.Parse\<close>, by their names on the command line:
  \<open>-update-frequency\<close> and \<open>-refresh-period\<close> are of Go's type \<open>uint\<close>, \<open>-digits\<close> is an
  \<open>int\<close>, the others are strings.
\<close>

record Flags =
  flag_secret :: string
  flag_secret_file :: string
  flag_update_frequency :: nat
  flag_refresh_period :: nat
  flag_prefix :: string
  flag_digits :: int
  flag_algorithm :: string
  flag_color :: string
  flag_warn_color :: string
  flag_error_color :: string

text \<open>What the command asks of the operating system.\<close>

record os =
  Open :: "string \<Rightarrow> go_error + File"
  Getenv :: "string \<Rightarrow> string"
  UserHomeDir :: "go_error + string"

text \<open>
  The three file cases of \<open>main\<close> share their code: open the file, panic on an error,
  apply \<open>SecretFromFile\<close> to the device.
\<close>

definition secret_from_path ::
  "(string \<Rightarrow> string) \<Rightarrow> os \<Rightarrow> string \<Rightarrow> 's state \<Rightarrow> 's outcome" where
  "secret_from_path quote sys name st =
     (case Open sys name of
        Inl err \<Rightarrow> Panic err st
      | Inr secFile \<Rightarrow> SecretFromFile quote (Some secFile) st)"

text \<open>
  \<open>main\<close> of \<open>cmd.go\<close>, from the parsed flags on; \<open>ticks\<close> are the ticks the ticker of \<open>Run\<close>
  delivers. \<open>time.Second*time.Duration(*frequency)\<close> is a product of \<open>int64\<close>.
\<close>

definition main ::
  "generator \<Rightarrow> (string \<Rightarrow> string) \<Rightarrow> os \<Rightarrow> Flags \<Rightarrow> Time list \<Rightarrow> 'a stdio_scheme \<Rightarrow>
   'a stdio_scheme outcome" where
  "main GenerateCodeCustom quote sys fl ticks w =
     (let term = NewTerminal
            [Prefix_option (flag_prefix fl),
             DefaultColor_option (TerminalColors (flag_color fl)),
             WarningColor_option (TerminalColors (flag_warn_color fl)),
             ErrorColor_option (TerminalColors (flag_error_color fl))]
      in case NewMFADevice
            [Output (Some (Terminal_Writer term)),
             Algorithm_option (flag_algorithm fl),
             RefreshPeriod (flag_refresh_period fl),
             Digits_option (flag_digits fl),
             UpdateFrequency_option (time_Second * of_nat (flag_update_frequency fl))] w of
           Panic err st \<Rightarrow> Panic err st
         | Normal st \<Rightarrow>
             (case (if flag_secret fl \<noteq> [] then Secret_option (flag_secret fl) st
                    else if flag_secret_file fl \<noteq> []
                      then secret_from_path quote sys (flag_secret_file fl) st
                    else if Getenv sys SecretFileNameEnv \<noteq> []
                      then secret_from_path quote sys (Getenv sys SecretFileNameEnv) st
                    else (case UserHomeDir sys of
                            Inl err \<Rightarrow> Panic err st
                          | Inr homeDir \<Rightarrow>
                              secret_from_path quote sys (homeDir @ ''/.mfa/secret'') st)) of
                Panic err st' \<Rightarrow> Panic err st'
              | Normal st' \<Rightarrow> Run GenerateCodeCustom ticks st'))"

section \<open>The generator of the specification\<close>

text \<open>
  The decimal digits of a number (\<open>digit_char\<close> is only applied to a number below 10),
  and a string padded on the left with the character 0 to a given length.
\<close>

definition digit_char :: "nat \<Rightarrow> char" where
  "digit_char d = ''0123456789'' ! d"

fun decimal :: "nat \<Rightarrow> string" where
  "decimal n = (if n < 10 then [digit_char n] else decimal (n div 10) @ [digit_char (n mod 10)])"

declare decimal.simps [simp del]

definition zero_pad :: "nat \<Rightarrow> string \<Rightarrow> string" where
  "zero_pad n s = replicate (n - length s) (CHR ''0'') @ s"

text \<open>
  Modelled from the spec: the OTP generator, \<open>totp.GenerateCodeCustom\<close> of the library
  \<open>github.com/pquerna/otp\<close>, whose code is not among the sources. By section 4.1 of the
  specification, \<open>generate(secret, timestamp, algorithm, digits, period)\<close> computes the
  time-step counter \<open>floor(unix_seconds(timestamp) / period)\<close>, produces an HMAC-based
  one-time code over that counter with the selected hash algorithm, reduces it modulo
  10 to the power \<open>digits\<close> and pads it on the left with zeros to exactly \<open>digits\<close>
  characters; it fails with a configuration error if the secret is empty, \<open>digits\<close> is
  not positive or the algorithm is not recognised. The HMAC-based code before the
  reduction is the parameter \<open>hotp\<close>, a function of the algorithm, the secret and the
  counter. The specification takes the period to be positive.
\<close>

definition generate ::
  "(Algorithm \<Rightarrow> bytes \<Rightarrow> int \<Rightarrow> nat) \<Rightarrow> bytes \<Rightarrow> Time \<Rightarrow> Algorithm \<Rightarrow> int \<Rightarrow> nat \<Rightarrow>
   go_error + string" where
  "generate hotp secret timestamp algorithm digits period =
     (if secret = [] \<or> digits \<le> 0 \<or>
         algorithm \<notin> {AlgorithmSHA1, AlgorithmSHA256, AlgorithmSHA512, AlgorithmMD5}
      then Inl (ErrorString ''configuration error'')
      else
        let counter = Unix timestamp div int period
        in Inr (zero_pad (nat digits)
                  (decimal (hotp algorithm secret counter mod 10 ^ nat digits))))"

section \<open>Example values\<close>

text \<open>
  A device as \<open>cmd.go\<close> builds it by default, writing to a terminal with nothing printed
  yet, and the two ticks of the specification's end-to-end scenarios.
\<close>

definition example_device :: "stdio MFADevice" where
  "example_device =
     \<lparr>Secret = ''JBSWY3DPEHPK3PXP'', Writer = Terminal_Writer (NewTerminal []),
      UpdateFrequency = time_Second,
      TOTPOptions = \<lparr>Period = 30, Skew = 0, Digits = 6, Algorithm = AlgorithmSHA1\<rparr>\<rparr>"

definition blank_stdio :: stdio where
  "blank_stdio = \<lparr>Stdout = [], Stderr = [], Now = \<lparr>Unix = 0, zone_offset = 0\<rparr>\<rparr>"

definition example_state :: "stdio state" where
  "example_state = \<lparr>device = example_device, world = blank_stdio, calls = []\<rparr>"

definition second_59 :: Time where
  "second_59 = \<lparr>Unix = 59, zone_offset = 0\<rparr>"

definition second_10 :: Time where
  "second_10 = \<lparr>Unix = 10, zone_offset = 0\<rparr>"

text \<open>A sink whose every method fails, as a writer to a closed stream does.\<close>

definition closed_Writer :: "'s Writer" where
  "closed_Writer =
     \<lparr>Write = (\<lambda>p w. (Some (ErrorString ''file already closed''), w)),
      Warn = (\<lambda>p w. (Some (ErrorString ''file already closed''), w)),
      Error = (\<lambda>p w. (Some (ErrorString ''file already closed''), w))\<rparr>"

text \<open>
  A stand-in for the library's generator in the examples: it returns an error for an
  algorithm constant that is none of the four, and a fixed code otherwise.
\<close>

definition strict_generator :: generator where
  "strict_generator secret t opts =
     (if Algorithm opts \<in> {AlgorithmSHA1, AlgorithmSHA256, AlgorithmSHA512, AlgorithmMD5}
      then Inr ''123456'' else Inl (ErrorString ''unsupported algorithm''))"

text \<open>
  What the verb \<open>%q\<close> prints for a name of printable ASCII characters with no quote and
  no backslash in it: the name between double quotes.
\<close>

definition plain_quote :: "string \<Rightarrow> string" where
  "plain_quote name = CHR 0x22 # name @ [CHR 0x22]"

text \<open>
  Flags with three configuration errors at once (an algorithm name that is not in
  \<open>algMap\<close>, a period of zero and an update frequency of zero) beside a secret given on
  the command line; and flags with no secret, naming a file.
\<close>

definition bad_flags :: Flags where
  "bad_flags =
     \<lparr>flag_secret = ''JBSWY3DPEHPK3PXP'', flag_secret_file = [], flag_update_frequency = 0,
      flag_refresh_period = 0, flag_prefix = ''mfa'', flag_digits = 6,
      flag_algorithm = ''SHA3'', flag_color = [], flag_warn_color = [],
      flag_error_color = []\<rparr>"

definition file_flags :: Flags where
  "file_flags =
     \<lparr>flag_secret = [], flag_secret_file = ''/home/user/.mfa/secret'',
      flag_update_frequency = 1, flag_refresh_period = 30, flag_prefix = ''mfa'',
      flag_digits = 6, flag_algorithm = ''SHA1'', flag_color = [], flag_warn_color = [],
      flag_error_color = []\<rparr>"

text \<open>
  Secret files: an empty one with mode \<open>0o600\<close> (384), one that its group and everyone
  may read, with mode \<open>0o644\<close> (420), and one with mode \<open>0o777\<close> (511).
\<close>

definition empty_secret_file :: File where
  "empty_secret_file =
     \<lparr>Name = ''/home/user/.mfa/secret'', Stat = Inr 384, ReadAll = Inr []\<rparr>"

definition readable_secret_file :: File where
  "readable_secret_file =
     \<lparr>Name = ''/home/user/.mfa/secret'', Stat = Inr 420, ReadAll = Inr ''JBSWY3DPEHPK3PXP''\<rparr>"

definition open_secret_file :: File where
  "open_secret_file =
     \<lparr>Name = ''/home/user/.mfa/secret'', Stat = Inr 511, ReadAll = Inr ''JBSWY3DPEHPK3PXP''\<rparr>"

text \<open>An operating system with no file at all, and one whose every file is the empty secret file.\<close>

definition no_files :: os where
  "no_files =
     \<lparr>Open = (\<lambda>name. Inl (ErrorString ''no such file or directory'')),
      Getenv = (\<lambda>name. []), UserHomeDir = Inr ''/home/user''\<rparr>"

definition empty_files :: os where
  "empty_files =
     \<lparr>Open = (\<lambda>name. Inr empty_secret_file),
      Getenv = (\<lambda>name. []), UserHomeDir = Inr ''/home/user''\<rparr>"

text \<open>
  The switch of \<open>main\<close>, when no secret is given on the command line, reads the secret
  from one file: the one of the flag \<open>-secret-file\<close>, else the one named by the
  environment variable, else \<open>/.mfa/secret\<close> under the home directory, where
  \<open>os.UserHomeDir\<close> may fail. This is the name of that file, or the error.
\<close>

definition secret_file_name :: "os \<Rightarrow> Flags \<Rightarrow> go_error + string" where
  "secret_file_name sys fl =
     (if flag_secret_file fl \<noteq> [] then Inr (flag_secret_file fl)
      else if Getenv sys SecretFileNameEnv \<noteq> [] then Inr (Getenv sys SecretFileNameEnv)
      else (case UserHomeDir sys of
              Inl err \<Rightarrow> Inl err
            | Inr homeDir \<Rightarrow> Inr (homeDir @ ''/.mfa/secret'')))"

text \<open>
  The device that \<open>main\<close> builds from the flags and a secret, as the last section
  proves: every flag is taken as it is.
\<close>

definition device_of_flags :: "Flags \<Rightarrow> bytes \<Rightarrow> 'a stdio_scheme MFADevice" where
  "device_of_flags fl secret =
     \<lparr>Secret = secret,
      Writer = Terminal_Writer (NewTerminal
         [Prefix_option (flag_prefix fl),
          DefaultColor_option (TerminalColors (flag_color fl)),
          WarningColor_option (TerminalColors (flag_warn_color fl)),
          ErrorColor_option (TerminalColors (flag_error_color fl))]),
      UpdateFrequency =
        (if time_Second * of_nat (flag_update_frequency fl) \<noteq> 0
         then time_Second * of_nat (flag_update_frequency fl) else time_Second),
      TOTPOptions =
        \<lparr>Period = flag_refresh_period fl, Skew = 0, Digits = flag_digits fl,
         Algorithm = (if flag_algorithm fl \<noteq> [] then algMap (flag_algorithm fl)
                      else AlgorithmSHA1)\<rparr>\<rparr>"

section \<open>The refresh loop\<close>

lemma Second_range: "0 \<le> Second t \<and> Second t < 60"
  by (simp add: Second_def)

lemma calls_call_Warn: "calls (snd (call_Warn p st)) = calls st @ [WarnCall p]"
  by (simp add: call_Warn_def split: prod.splits)

lemma calls_call_Write: "calls (snd (call_Write p st)) = calls st @ [WriteCall p]"
  by (simp add: call_Write_def split: prod.splits)

lemma device_call_Warn: "device (snd (call_Warn p st)) = device st"
  by (simp add: call_Warn_def split: prod.splits)

lemma device_call_Write: "device (snd (call_Write p st)) = device st"
  by (simp add: call_Write_def split: prod.splits)

lemma example_generation:
  "Secret (device example_state) = ''JBSWY3DPEHPK3PXP'' \<and>
   TOTPOptions (device example_state) =
     \<lparr>Period = 30, Skew = 0, Digits = 6, Algorithm = AlgorithmSHA1\<rparr> \<and>
   calls example_state = [] \<and>
   sint (UpdateFrequency (device example_state)) = 1000000000"
  by (simp add: example_state_def example_device_def time_Second_def)

lemma tick_routes_by_severity_aux:
  assumes "G (Secret (device st)) t (TOTPOptions (device st)) = Inr out"
  shows "calls (final (tick G t st)) =
           calls st @ [if Second t \<ge> 55 \<or> (Second t < 30 \<and> Second t \<ge> 25)
                       then WarnCall out else WriteCall out]"
proof (cases "Second t \<ge> 55 \<or> (Second t < 30 \<and> Second t \<ge> 25)")
  case True
  with assms have "calls (final (tick G t st)) = calls (snd (call_Warn out st))"
    by (auto simp: tick_def split: prod.splits option.splits)
  with True show ?thesis by (simp only: calls_call_Warn if_True)
next
  case False
  with assms have "calls (final (tick G t st)) = calls (snd (call_Write out st))"
    by (auto simp: tick_def split: prod.splits option.splits)
  with False show ?thesis by (simp only: calls_call_Write if_False)
qed

lemma tick_outcome:
  assumes "G (Secret (device st)) t (TOTPOptions (device st)) = Inr out"
  shows "tick G t st =
           (if Second t \<ge> 55 \<or> (Second t < 30 \<and> Second t \<ge> 25) then
              (case Warn (Writer (device st)) out (world st) of
                 (None, w) \<Rightarrow> Normal (st\<lparr>world := w, calls := calls st @ [WarnCall out]\<rparr>)
               | (Some err, w) \<Rightarrow> Panic err (st\<lparr>world := w, calls := calls st @ [WarnCall out]\<rparr>))
            else
              (case Write (Writer (device st)) out (world st) of
                 (None, w) \<Rightarrow> Normal (st\<lparr>world := w, calls := calls st @ [WriteCall out]\<rparr>)
               | (Some err, w) \<Rightarrow> Panic err (st\<lparr>world := w, calls := calls st @ [WriteCall out]\<rparr>)))"
  using assms
  by (simp add: tick_def call_Warn_def call_Write_def split: prod.splits option.splits)

lemma example_Writer:
  "Warn (Writer (device example_state)) p (world example_state) =
     (None, \<lparr>Stdout = [(CHR 0x0D # ''%s%s [%s] %s'', Cyan, ''default'',
                          \<lparr>Unix = 0, zone_offset = 0\<rparr>, p)],
              Stderr = [], Now = \<lparr>Unix = 0, zone_offset = 0\<rparr>\<rparr>)"
  "Write (Writer (device example_state)) p (world example_state) =
     (None, \<lparr>Stdout = [(CHR 0x0D # ''%s%s [%s] %s'', Green, ''default'',
                          \<lparr>Unix = 0, zone_offset = 0\<rparr>, p)],
              Stderr = [], Now = \<lparr>Unix = 0, zone_offset = 0\<rparr>\<rparr>)"
  by (simp_all add: example_state_def example_device_def blank_stdio_def Terminal_Writer_def
      Terminal_Warn_def Terminal_Write_def NewTerminal_def)

text \<open>
  C1. When generation succeeds at a tick with timestamp \<open>t\<close>, the tick is one call of a
  method of the device's \<open>Writer\<close> on the sink, with the generated code: the method \<open>Warn\<close>
  when the second of the minute of \<open>t\<close> is one of 25..29 or 55..59 (the WARNING tier),
  the method \<open>Write\<close> for every other second (the NORMAL tier). The sink after the tick is
  what that method made of the sink before it, the history of calls has grown by that
  one call, and the tick completes when the method returns nil and panics with the
  method's error otherwise.
\<close>

theorem tick_routes_by_severity:
  assumes "G (Secret (device st)) t (TOTPOptions (device st)) = Inr out"
  shows "tick G t st =
           (if Second t \<in> {25..29} \<union> {55..59} then
              (case Warn (Writer (device st)) out (world st) of
                 (None, w) \<Rightarrow> Normal (st\<lparr>world := w, calls := calls st @ [WarnCall out]\<rparr>)
               | (Some err, w) \<Rightarrow> Panic err (st\<lparr>world := w, calls := calls st @ [WarnCall out]\<rparr>))
            else
              (case Write (Writer (device st)) out (world st) of
                 (None, w) \<Rightarrow> Normal (st\<lparr>world := w, calls := calls st @ [WriteCall out]\<rparr>)
               | (Some err, w) \<Rightarrow> Panic err (st\<lparr>world := w, calls := calls st @ [WriteCall out]\<rparr>))) \<and>
         world (final (tick G t st)) =
           snd ((if Second t \<in> {25..29} \<union> {55..59}
                 then Warn (Writer (device st)) else Write (Writer (device st))) out (world st)) \<and>
         calls (final (tick G t st)) =
           calls st @ [if Second t \<in> {25..29} \<union> {55..59} then WarnCall out else WriteCall out]"
proof -
  have "0 \<le> Second t \<and> Second t < 60" by (rule Second_range)
  then have c: "(Second t \<ge> 55 \<or> (Second t < 30 \<and> Second t \<ge> 25)) =
      (Second t \<in> {25..29} \<union> {55..59})"
    by auto
  note o = tick_outcome [of G st t out, OF assms, unfolded c]
  have w: "world (final (tick G t st)) =
           snd ((if Second t \<in> {25..29} \<union> {55..59}
                 then Warn (Writer (device st)) else Write (Writer (device st))) out (world st))"
    by (simp add: o split: prod.splits option.splits)
  have k: "calls (final (tick G t st)) =
           calls st @ [if Second t \<in> {25..29} \<union> {55..59} then WarnCall out else WriteCall out]"
    by (simp add: o split: prod.splits option.splits)
  from o w k show ?thesis by blast
qed

text \<open>
  At second 59 the code reaches the terminal through \<open>Warn\<close>, in the warning colour; at
  second 10 through \<open>Write\<close>, in the default colour.
\<close>

theorem tick_routes_by_severity_witness:
  "tick (\<lambda>secret t opts. Inr ''123456'') second_59 example_state =
     Normal (example_state
       \<lparr>world := \<lparr>Stdout = [(CHR 0x0D # ''%s%s [%s] %s'', Cyan, ''default'',
                              \<lparr>Unix = 0, zone_offset = 0\<rparr>, ''123456'')],
                   Stderr = [], Now = \<lparr>Unix = 0, zone_offset = 0\<rparr>\<rparr>,
        calls := [WarnCall ''123456'']\<rparr>) \<and>
   tick (\<lambda>secret t opts. Inr ''123456'') second_10 example_state =
     Normal (example_state
       \<lparr>world := \<lparr>Stdout = [(CHR 0x0D # ''%s%s [%s] %s'', Green, ''default'',
                              \<lparr>Unix = 0, zone_offset = 0\<rparr>, ''123456'')],
                   Stderr = [], Now = \<lparr>Unix = 0, zone_offset = 0\<rparr>\<rparr>,
        calls := [WriteCall ''123456'']\<rparr>)"
  using tick_routes_by_severity [of "\<lambda>secret t opts. Inr ''123456''" example_state second_59 "''123456''"]
    tick_routes_by_severity [of "\<lambda>secret t opts. Inr ''123456''" example_state second_10 "''123456''"]
  by (simp add: example_generation example_Writer Second_def second_59_def second_10_def)

text \<open>
  C8. A tick that completes (the body of the loop reaches its end without a panic) has
  performed exactly one write to the sink: the state after it is the state before it
  with the sink changed by a single application of \<open>Write\<close> or of \<open>Warn\<close> of the device's
  \<open>Writer\<close> to the code generated at that tick, which returned nil, and with that one call
  added to the history of calls. Nothing else has changed.
\<close>

theorem completed_tick_one_write:
  assumes "tick G t st = Normal st'"
  shows "\<exists>out. G (Secret (device st)) t (TOTPOptions (device st)) = Inr out \<and>
           ((fst (Write (Writer (device st)) out (world st)) = None \<and>
             st' = st\<lparr>world := snd (Write (Writer (device st)) out (world st)),
                      calls := calls st @ [WriteCall out]\<rparr>) \<or>
            (fst (Warn (Writer (device st)) out (world st)) = None \<and>
             st' = st\<lparr>world := snd (Warn (Writer (device st)) out (world st)),
                      calls := calls st @ [WarnCall out]\<rparr>))"
  using assms
  by (auto simp: tick_def call_Warn_def call_Write_def
      split: sum.splits if_splits prod.splits option.splits)

lemma example_tick_completes:
  "tick (\<lambda>secret t opts. Inr ''123456'') second_10 example_state =
     Normal (example_state
       \<lparr>world := \<lparr>Stdout = [(Pattern (NewTerminal []), DefaultColor (NewTerminal []),
                              Prefix (NewTerminal []), \<lparr>Unix = 0, zone_offset = 0\<rparr>, ''123456'')],
                   Stderr = [], Now = \<lparr>Unix = 0, zone_offset = 0\<rparr>\<rparr>,
        calls := [WriteCall ''123456'']\<rparr>)"
  by (simp add: tick_def call_Write_def example_state_def example_device_def blank_stdio_def
      Terminal_Writer_def Terminal_Write_def Second_def second_10_def)

theorem completed_tick_one_write_witness:
  "tick (\<lambda>secret t opts. Inr ''123456'') second_10 example_state =
     Normal (example_state
       \<lparr>world := snd (Write (Writer (device example_state)) ''123456'' (world example_state)),
        calls := [WriteCall ''123456'']\<rparr>) \<and>
   fst (Write (Writer (device example_state)) ''123456'' (world example_state)) = None \<and>
   world (example_state
       \<lparr>world := snd (Write (Writer (device example_state)) ''123456'' (world example_state)),
        calls := [WriteCall ''123456'']\<rparr>) =
     \<lparr>Stdout = [(CHR 0x0D # ''%s%s [%s] %s'', Green, ''default'',
                  \<lparr>Unix = 0, zone_offset = 0\<rparr>, ''123456'')],
      Stderr = [], Now = \<lparr>Unix = 0, zone_offset = 0\<rparr>\<rparr>"
  using completed_tick_one_write [OF example_tick_completes] example_tick_completes
  by (simp add: example_generation example_Writer NewTerminal_def)

lemma device_tick: "device (final (tick G t st)) = device st"
  by (simp add: tick_def call_Warn_def call_Write_def
      split: sum.splits prod.splits option.splits)

lemma device_loop: "device (final (loop G ts st)) = device st"
proof (induction ts arbitrary: st)
  case Nil
  show ?case by simp
next
  case (Cons t ts)
  show ?case
  proof (cases "tick G t st")
    case (Normal st')
    with device_tick [of G t st] have "device st' = device st" by simp
    with Normal Cons.IH [of st'] show ?thesis by simp
  next
    case (Panic err st')
    with device_tick [of G t st] show ?thesis by simp
  qed
qed

text \<open>
  C9. The refresh loop never changes the device: after a tick, whether it completes or
  panics, and after \<open>Run\<close> has handled any number of ticks, the device (its secret, its
  writer, its update frequency and its TOTP options) is the one from before.
\<close>

theorem Run_keeps_device:
  "device (final (tick G t st)) = device st \<and>
   device (final (Run G ts st)) = device st \<and>
   Secret (device (final (Run G ts st))) = Secret (device st) \<and>
   Writer (device (final (Run G ts st))) = Writer (device st) \<and>
   UpdateFrequency (device (final (Run G ts st))) = UpdateFrequency (device st) \<and>
   TOTPOptions (device (final (Run G ts st))) = TOTPOptions (device st)"
  by (simp add: Run_def device_tick device_loop)

theorem Run_keeps_device_witness:
  "device (final (Run (\<lambda>secret t opts. Inr ''123456'') [second_10, second_59] example_state)) =
     example_device"
  using Run_keeps_device [of "\<lambda>secret t opts. Inr ''123456''" second_10 example_state
      "[second_10, second_59]"]
  by (simp add: example_state_def)

text \<open>
  C10. Two devices that differ only in the configured validity period, at the same
  tick and with generation succeeding for both, are routed alike: the calls made on the
  sink go to the same entry points (\<open>Warn\<close> for both or \<open>Write\<close> for both), whatever the
  two periods are.
\<close>

theorem routing_independent_of_period:
  assumes "G (Secret (device st)) t (TOTPOptions (device st)) = Inr out1"
    and "G (Secret (device st)) t ((TOTPOptions (device st))\<lparr>Period := p\<rparr>) = Inr out2"
  shows "map entry_point
           (calls (final (tick G t
              (st\<lparr>device := (device st)\<lparr>TOTPOptions := (TOTPOptions (device st))\<lparr>Period := p\<rparr>\<rparr>\<rparr>)))) =
         map entry_point (calls (final (tick G t st)))"
proof -
  let ?st2 = "st\<lparr>device := (device st)\<lparr>TOTPOptions := (TOTPOptions (device st))\<lparr>Period := p\<rparr>\<rparr>\<rparr>"
  have "G (Secret (device ?st2)) t (TOTPOptions (device ?st2)) = Inr out2"
    using assms(2) by simp
  from tick_routes_by_severity_aux [of G ?st2 t out2, OF this]
    tick_routes_by_severity_aux [of G st t out1, OF assms(1)]
  show ?thesis by simp
qed

theorem routing_independent_of_period_witness:
  "map entry_point
     (calls (final (tick (\<lambda>secret t opts. if Period opts = 30 then Inr ''123456'' else Inr ''654321'')
        second_59
        (example_state\<lparr>device := (device example_state)\<lparr>TOTPOptions :=
            (TOTPOptions (device example_state))\<lparr>Period := 60\<rparr>\<rparr>\<rparr>)))) = [''Warn''] \<and>
   map entry_point
     (calls (final (tick (\<lambda>secret t opts. if Period opts = 30 then Inr ''123456'' else Inr ''654321'')
        second_59 example_state))) = [''Warn'']"
  using routing_independent_of_period
    [of "\<lambda>secret t opts. if Period opts = 30 then Inr ''123456'' else Inr ''654321''"
        example_state second_59 "''123456''" 60 "''654321''"]
    tick_routes_by_severity_aux
    [of "\<lambda>secret t opts. if Period opts = 30 then Inr ''123456'' else Inr ''654321''"
        example_state second_59 "''123456''"]
  by (simp add: example_generation Second_def second_59_def)

subsection \<open>A failing generation\<close>

lemma loop_append:
  "loop G (ts1 @ ts2) st =
     (case loop G ts1 st of Panic err st' \<Rightarrow> Panic err st' | Normal st' \<Rightarrow> loop G ts2 st')"
  by (induction ts1 arbitrary: st) (auto split: outcome.splits)

lemma tick_generation_fails:
  "G (Secret (device st)) t (TOTPOptions (device st)) = Inl err \<Longrightarrow> tick G t st = Panic err st"
  by (simp add: tick_def)

text \<open>
  C2, as the code has it. When the generation fails at a tick, \<open>Run\<close> panics with the
  generator's error, in the state the earlier ticks have left: the failing tick makes
  no call on the sink, the error entry point included, and no later tick is handled.
\<close>

theorem generation_failure_panics:
  assumes "0 < sint (UpdateFrequency (device st))"
    and "loop G before st = Normal st1"
    and "G (Secret (device st1)) t (TOTPOptions (device st1)) = Inl err"
  shows "Run G (before @ t # later) st = Panic err st1"
proof -
  from assms(3) have "tick G t st1 = Panic err st1"
    by (rule tick_generation_fails)
  then have "loop G (t # later) st1 = Panic err st1" by simp
  with assms(2) have "loop G (before @ t # later) st = Panic err st1"
    by (simp add: loop_append)
  with assms(1) show ?thesis by (simp add: Run_def)
qed

lemma example_loop_before_failure:
  "loop (\<lambda>secret t opts. if Unix t < 30 then Inr ''123456'' else Inl (ErrorString ''failed''))
      [second_10] example_state =
     Normal (example_state
       \<lparr>world := \<lparr>Stdout = [(Pattern (NewTerminal []), DefaultColor (NewTerminal []),
                              Prefix (NewTerminal []), \<lparr>Unix = 0, zone_offset = 0\<rparr>, ''123456'')],
                   Stderr = [], Now = \<lparr>Unix = 0, zone_offset = 0\<rparr>\<rparr>,
        calls := [WriteCall ''123456'']\<rparr>)"
  by (simp add: tick_def call_Write_def example_state_def example_device_def blank_stdio_def
      Terminal_Writer_def Terminal_Write_def Second_def second_10_def)

theorem generation_failure_panics_witness:
  "Run (\<lambda>secret t opts. if Unix t < 30 then Inr ''123456'' else Inl (ErrorString ''failed''))
      [second_10, second_59, second_10] example_state =
     Panic (ErrorString ''failed'')
       (example_state
         \<lparr>world := \<lparr>Stdout = [(Pattern (NewTerminal []), DefaultColor (NewTerminal []),
                                Prefix (NewTerminal []), \<lparr>Unix = 0, zone_offset = 0\<rparr>, ''123456'')],
                     Stderr = [], Now = \<lparr>Unix = 0, zone_offset = 0\<rparr>\<rparr>,
          calls := [WriteCall ''123456'']\<rparr>)"
  using generation_failure_panics [OF _ example_loop_before_failure,
      of second_59 "ErrorString ''failed''" "[second_10]"]
  by (simp add: example_generation second_59_def)

text \<open>
  The claim C2 as stated fails: with a generator that rejects an algorithm constant it
  does not know, and a device holding such a constant, \<open>Run\<close> ends in a panic at the
  first tick, the second tick is not handled, and no call has been made on the sink.
\<close>

theorem generation_failure_counterexample:
  "Run strict_generator [second_10, second_59]
      (example_state\<lparr>device := example_device\<lparr>TOTPOptions :=
          \<lparr>Period = 30, Skew = 0, Digits = 6, Algorithm = 7\<rparr>\<rparr>\<rparr>) =
    Panic (ErrorString ''unsupported algorithm'')
      (example_state\<lparr>device := example_device\<lparr>TOTPOptions :=
          \<lparr>Period = 30, Skew = 0, Digits = 6, Algorithm = 7\<rparr>\<rparr>\<rparr>) \<and>
   calls (example_state\<lparr>device := example_device\<lparr>TOTPOptions :=
          \<lparr>Period = 30, Skew = 0, Digits = 6, Algorithm = 7\<rparr>\<rparr>\<rparr>) = []"
  by (simp add: Run_def tick_def example_state_def example_device_def time_Second_def
      strict_generator_def AlgorithmSHA1_def AlgorithmSHA256_def AlgorithmSHA512_def
      AlgorithmMD5_def)

section \<open>Loading the secret from a file\<close>

text \<open>
  C3, on the code. \<open>SecretFromFile\<close> warns exactly when the permission bits, read as a
  number, are greater than \<open>0o700\<close> (448), and then once. A file that its group or
  everyone may read has a mode such as \<open>0o644\<close> (420) or \<open>0o604\<close>, which is not greater
  than \<open>0o700\<close>: for it no warning is emitted, against the claim. The instance below is
  the file of mode \<open>0o644\<close>.
\<close>

theorem SecretFromFile_warns_above_0700:
  assumes "Stat f = Inr mode"
  shows "calls (final (SecretFromFile quote (Some f) st)) =
           calls st @ (if Perm mode > 448 then [WarnCall (insecure_warning quote (Name f))]
                       else [])"
  using assms
  by (simp add: SecretFromFile_def Let_def calls_call_Warn split: sum.splits)

theorem group_readable_file_no_warning:
  "Perm 420 AND 36 = (36 :: 32 word) \<and>
   calls (final (SecretFromFile plain_quote (Some readable_secret_file) example_state)) = []"
  using SecretFromFile_warns_above_0700 [of readable_secret_file 420 plain_quote example_state]
  by (simp add: Perm_def readable_secret_file_def example_generation)

text \<open>
  C7, on the code. When the mode of the file is above \<open>0o700\<close> and the call of \<open>Warn\<close>
  returns an error, \<open>SecretFromFile\<close> returns as if nothing had happened: the secret is
  set, there is no panic, and the error is in no part of the result. (In \<open>Run\<close> the error
  of the same method is checked and causes a panic.)
\<close>

theorem SecretFromFile_drops_sink_error:
  assumes "Stat f = Inr mode" and "Perm mode > 448" and "ReadAll f = Inr secret"
    and "Warn (Writer (device st)) (insecure_warning quote (Name f)) (world st) = (Some err, w)"
  shows "SecretFromFile quote (Some f) st =
           Normal \<lparr>device = (device st)\<lparr>Secret := secret\<rparr>, world = w,
                   calls = calls st @ [WarnCall (insecure_warning quote (Name f))]\<rparr>"
  using assms
  by (simp add: SecretFromFile_def Let_def call_Warn_def)

theorem SecretFromFile_drops_sink_error_at_closed_sink:
  "SecretFromFile plain_quote (Some open_secret_file)
       \<lparr>device = example_device\<lparr>Writer := closed_Writer\<rparr>, world = blank_stdio, calls = []\<rparr> =
     Normal \<lparr>device = example_device\<lparr>Writer := closed_Writer, Secret := ''JBSWY3DPEHPK3PXP''\<rparr>,
             world = blank_stdio,
             calls = [WarnCall (insecure_warning plain_quote ''/home/user/.mfa/secret'')]\<rparr>"
  using SecretFromFile_drops_sink_error
    [of open_secret_file 511 "''JBSWY3DPEHPK3PXP''"
        "\<lparr>device = example_device\<lparr>Writer := closed_Writer\<rparr>, world = blank_stdio, calls = []\<rparr>"
        plain_quote "ErrorString ''file already closed''" blank_stdio]
  by (simp add: open_secret_file_def Perm_def closed_Writer_def)

section \<open>Construction and configuration errors\<close>

lemma NewMFADevice_of_flags:
  "NewMFADevice
     [Output (Some (Terminal_Writer (NewTerminal
         [Prefix_option (flag_prefix fl),
          DefaultColor_option (TerminalColors (flag_color fl)),
          WarningColor_option (TerminalColors (flag_warn_color fl)),
          ErrorColor_option (TerminalColors (flag_error_color fl))]))),
      Algorithm_option (flag_algorithm fl),
      RefreshPeriod (flag_refresh_period fl),
      Digits_option (flag_digits fl),
      UpdateFrequency_option (time_Second * of_nat (flag_update_frequency fl))] w =
   Normal \<lparr>device = device_of_flags fl [], world = w, calls = []\<rparr>"
  by (simp add: NewMFADevice_def Output_def Algorithm_option_def RefreshPeriod_def
      Digits_option_def UpdateFrequency_option_def device_of_flags_def AlgorithmSHA1_def)

lemma main_with_secret:
  assumes "flag_secret fl \<noteq> []"
  shows "main G quote sys fl ticks w =
           Run G ticks \<lparr>device = device_of_flags fl (flag_secret fl), world = w, calls = []\<rparr>"
  using assms
  by (simp add: main_def Let_def NewMFADevice_of_flags Secret_option_def device_of_flags_def)

lemma main_without_secret:
  assumes "flag_secret fl = []"
  shows "main G quote sys fl ticks w =
           (case secret_file_name sys fl of
              Inl err \<Rightarrow> Panic err \<lparr>device = device_of_flags fl [], world = w, calls = []\<rparr>
            | Inr name \<Rightarrow>
                (case secret_from_path quote sys name
                        \<lparr>device = device_of_flags fl [], world = w, calls = []\<rparr> of
                   Panic err st' \<Rightarrow> Panic err st'
                 | Normal st' \<Rightarrow> Run G ticks st'))"
  using assms
  by (simp add: main_def Let_def NewMFADevice_of_flags secret_file_name_def split: sum.splits)

lemma device_of_flags_Secret:
  "(device_of_flags fl s1)\<lparr>Secret := s2\<rparr> = device_of_flags fl s2"
  by (simp add: device_of_flags_def)

text \<open>
  C4, as the code has it. No value of the configuration is checked when the device is
  constructed. For every algorithm name, digit count, period and update frequency, the
  call of \<open>NewMFADevice\<close> in \<open>main\<close> returns the device built from the flags as they are
  (\<open>st0\<close>): an algorithm name that \<open>algMap\<close> does not know gives the zero value
  \<open>AlgorithmSHA1\<close>, an update frequency of zero gives one second, the period and the
  digit count are stored as given. With a secret on the command line \<open>main\<close> enters \<open>Run\<close>
  with that device and the secret. With none, the secret is read from the secret file:
  when the home directory is not found, or the file is not opened, or \<open>Stat\<close> or
  \<open>ReadAll\<close> fails, \<open>main\<close> panics with that error before \<open>Run\<close>; otherwise what the file
  holds, also when that is nothing, becomes the secret, and \<open>main\<close> enters \<open>Run\<close> with it
  (after the warning, in \<open>st1\<close>, when the mode is above \<open>0o700\<close>).
\<close>

theorem main_runs_without_validation:
  "(let st0 = \<lparr>device = device_of_flags fl [], world = w, calls = []\<rparr>;
        st1 = (if Perm mode > 448
               then snd (call_Warn (insecure_warning quote (Name f)) st0) else st0)
    in
      NewMFADevice
        [Output (Some (Terminal_Writer (NewTerminal
            [Prefix_option (flag_prefix fl),
             DefaultColor_option (TerminalColors (flag_color fl)),
             WarningColor_option (TerminalColors (flag_warn_color fl)),
             ErrorColor_option (TerminalColors (flag_error_color fl))]))),
         Algorithm_option (flag_algorithm fl),
         RefreshPeriod (flag_refresh_period fl),
         Digits_option (flag_digits fl),
         UpdateFrequency_option (time_Second * of_nat (flag_update_frequency fl))] w =
        Normal st0 \<and>
      (flag_secret fl \<noteq> [] \<longrightarrow>
         main G quote sys fl ticks w =
           Run G ticks (st0\<lparr>device := device_of_flags fl (flag_secret fl)\<rparr>)) \<and>
      (flag_secret fl = [] \<and> secret_file_name sys fl = Inl err \<longrightarrow>
         main G quote sys fl ticks w = Panic err st0) \<and>
      (flag_secret fl = [] \<and> secret_file_name sys fl = Inr name \<and> Open sys name = Inl err \<longrightarrow>
         main G quote sys fl ticks w = Panic err st0) \<and>
      (flag_secret fl = [] \<and> secret_file_name sys fl = Inr name \<and> Open sys name = Inr f \<and>
       Stat f = Inl err \<longrightarrow>
         main G quote sys fl ticks w = Panic err st0) \<and>
      (flag_secret fl = [] \<and> secret_file_name sys fl = Inr name \<and> Open sys name = Inr f \<and>
       Stat f = Inr mode \<and> ReadAll f = Inl err \<longrightarrow>
         main G quote sys fl ticks w = Panic err st1) \<and>
      (flag_secret fl = [] \<and> secret_file_name sys fl = Inr name \<and> Open sys name = Inr f \<and>
       Stat f = Inr mode \<and> ReadAll f = Inr secret \<longrightarrow>
         main G quote sys fl ticks w =
           Run G ticks (st1\<lparr>device := device_of_flags fl secret\<rparr>)))"
proof -
  let ?st0 = "\<lparr>device = device_of_flags fl [], world = w, calls = []\<rparr> :: 'a stdio_scheme state"
  let ?st1 = "if Perm mode > 448
               then snd (call_Warn (insecure_warning quote (Name f)) ?st0) else ?st0"
  have d1: "(device ?st1)\<lparr>Secret := secret\<rparr> = device_of_flags fl secret"
    by (simp add: device_call_Warn device_of_flags_Secret)
  have a: "NewMFADevice
        [Output (Some (Terminal_Writer (NewTerminal
            [Prefix_option (flag_prefix fl),
             DefaultColor_option (TerminalColors (flag_color fl)),
             WarningColor_option (TerminalColors (flag_warn_color fl)),
             ErrorColor_option (TerminalColors (flag_error_color fl))]))),
         Algorithm_option (flag_algorithm fl),
         RefreshPeriod (flag_refresh_period fl),
         Digits_option (flag_digits fl),
         UpdateFrequency_option (time_Second * of_nat (flag_update_frequency fl))] w =
        Normal ?st0"
    by (rule NewMFADevice_of_flags)
  have b: "flag_secret fl \<noteq> [] \<longrightarrow>
         main G quote sys fl ticks w =
           Run G ticks (?st0\<lparr>device := device_of_flags fl (flag_secret fl)\<rparr>)"
    by (simp add: main_with_secret)
  have c: "flag_secret fl = [] \<and> secret_file_name sys fl = Inl err \<longrightarrow>
         main G quote sys fl ticks w = Panic err ?st0"
    by (simp add: main_without_secret)
  have d: "flag_secret fl = [] \<and> secret_file_name sys fl = Inr name \<and> Open sys name = Inl err \<longrightarrow>
         main G quote sys fl ticks w = Panic err ?st0"
    by (simp add: main_without_secret secret_from_path_def)
  have e: "flag_secret fl = [] \<and> secret_file_name sys fl = Inr name \<and> Open sys name = Inr f \<and>
       Stat f = Inl err \<longrightarrow>
         main G quote sys fl ticks w = Panic err ?st0"
    by (simp add: main_without_secret secret_from_path_def SecretFromFile_def)
  have f: "flag_secret fl = [] \<and> secret_file_name sys fl = Inr name \<and> Open sys name = Inr f \<and>
       Stat f = Inr mode \<and> ReadAll f = Inl err \<longrightarrow>
         main G quote sys fl ticks w = Panic err ?st1"
    by (simp add: main_without_secret secret_from_path_def SecretFromFile_def Let_def)
  have g: "flag_secret fl = [] \<and> secret_file_name sys fl = Inr name \<and> Open sys name = Inr f \<and>
       Stat f = Inr mode \<and> ReadAll f = Inr secret \<longrightarrow>
         main G quote sys fl ticks w =
           Run G ticks (?st1\<lparr>device := device_of_flags fl secret\<rparr>)"
    using d1 by (simp add: main_without_secret secret_from_path_def SecretFromFile_def Let_def)
  from a b c d e f g show ?thesis
    unfolding Let_def by (intro conjI)
qed

text \<open>
  Three runs of \<open>main\<close>: with a secret on the command line and three configuration
  errors, \<open>Run\<close> is entered; with an empty secret file, \<open>Run\<close> is entered with an empty
  secret; with no file to open, \<open>main\<close> panics before \<open>Run\<close>.
\<close>

theorem main_runs_without_validation_witness:
  "main strict_generator plain_quote no_files bad_flags [second_10] blank_stdio =
     Run strict_generator [second_10]
       \<lparr>device = device_of_flags bad_flags ''JBSWY3DPEHPK3PXP'', world = blank_stdio, calls = []\<rparr> \<and>
   main strict_generator plain_quote empty_files file_flags [second_10] blank_stdio =
     Run strict_generator [second_10]
       \<lparr>device = device_of_flags file_flags [], world = blank_stdio, calls = []\<rparr> \<and>
   main strict_generator plain_quote no_files file_flags [second_10] blank_stdio =
     Panic (ErrorString ''no such file or directory'')
       \<lparr>device = device_of_flags file_flags [], world = blank_stdio, calls = []\<rparr>"
  using main_runs_without_validation
      [where fl = bad_flags and G = strict_generator and quote = plain_quote and sys = no_files
         and ticks = "[second_10]" and w = blank_stdio]
    main_runs_without_validation
      [where fl = file_flags and G = strict_generator and quote = plain_quote
         and sys = empty_files and ticks = "[second_10]" and w = blank_stdio
         and name = "''/home/user/.mfa/secret''" and f = empty_secret_file and mode = 384
         and secret = "[]"]
    main_runs_without_validation
      [where fl = file_flags and G = strict_generator and quote = plain_quote
         and sys = no_files and ticks = "[second_10]" and w = blank_stdio
         and name = "''/home/user/.mfa/secret''"
         and err = "ErrorString ''no such file or directory''"]
  by (simp add: Let_def bad_flags_def file_flags_def empty_files_def no_files_def
      empty_secret_file_def secret_file_name_def Perm_def)

text \<open>
  The claim C4 as stated fails. With an algorithm name that is not in \<open>algMap\<close>, a period
  of zero and an update frequency of zero, the program returns from the construction,
  starts the loop and handles a tick, writing a code to the sink; the device computes
  with \<open>AlgorithmSHA1\<close>. With no secret on the command line and an empty secret file,
  the program starts the loop with an empty secret and handles a tick as well.
\<close>

theorem configuration_error_counterexample:
  "algMap_map (flag_algorithm bad_flags) = None \<and>
   flag_refresh_period bad_flags = 0 \<and>
   flag_update_frequency bad_flags = 0 \<and>
   main strict_generator plain_quote no_files bad_flags [second_10] blank_stdio =
     Normal (final (main strict_generator plain_quote no_files bad_flags [second_10] blank_stdio)) \<and>
   calls (final (main strict_generator plain_quote no_files bad_flags [second_10] blank_stdio)) =
     [WriteCall ''123456''] \<and>
   Algorithm (TOTPOptions (device
     (final (main strict_generator plain_quote no_files bad_flags [second_10] blank_stdio)))) =
     AlgorithmSHA1 \<and>
   main strict_generator plain_quote empty_files file_flags [second_10] blank_stdio =
     Normal (final (main strict_generator plain_quote empty_files file_flags [second_10]
                      blank_stdio)) \<and>
   calls (final (main strict_generator plain_quote empty_files file_flags [second_10]
                   blank_stdio)) = [WriteCall ''123456''] \<and>
   Secret (device (final (main strict_generator plain_quote empty_files file_flags [second_10]
                            blank_stdio))) = []"
proof -
  have bad:
    "main strict_generator plain_quote no_files bad_flags [second_10] blank_stdio =
       Normal (final (main strict_generator plain_quote no_files bad_flags [second_10]
                        blank_stdio)) \<and>
     calls (final (main strict_generator plain_quote no_files bad_flags [second_10]
                     blank_stdio)) = [WriteCall ''123456''] \<and>
     Algorithm (TOTPOptions (device
       (final (main strict_generator plain_quote no_files bad_flags [second_10]
                 blank_stdio)))) = AlgorithmSHA1"
    by (simp add: main_with_secret bad_flags_def Run_def device_of_flags_def time_Second_def
        tick_def call_Write_def Terminal_Writer_def Terminal_Write_def Second_def
        second_10_def strict_generator_def algMap_def algMap_map_def AlgorithmSHA1_def)
  have empty:
    "main strict_generator plain_quote empty_files file_flags [second_10] blank_stdio =
       Normal (final (main strict_generator plain_quote empty_files file_flags [second_10]
                        blank_stdio)) \<and>
     calls (final (main strict_generator plain_quote empty_files file_flags [second_10]
                     blank_stdio)) = [WriteCall ''123456''] \<and>
     Secret (device (final (main strict_generator plain_quote empty_files file_flags
                              [second_10] blank_stdio))) = []"
    by (simp add: main_without_secret secret_file_name_def secret_from_path_def
        SecretFromFile_def Let_def Perm_def file_flags_def empty_files_def
        empty_secret_file_def Run_def device_of_flags_def time_Second_def
        tick_def call_Write_def Terminal_Writer_def Terminal_Write_def Second_def
        second_10_def strict_generator_def algMap_def algMap_map_def AlgorithmSHA1_def)
  have flags: "algMap_map (flag_algorithm bad_flags) = None \<and>
      flag_refresh_period bad_flags = 0 \<and> flag_update_frequency bad_flags = 0"
    by (simp add: bad_flags_def algMap_map_def)
  from flags bad empty show ?thesis by blast
qed

section \<open>Codes of the generator of the specification\<close>

lemma digit_char_decimal: "k < 10 \<Longrightarrow> digit_char k \<in> set ''0123456789''"
  unfolding digit_char_def by (rule nth_mem) simp

lemma decimal_digits: "set (decimal n) \<subseteq> set ''0123456789''"
proof (induction n rule: decimal.induct)
  case (1 n)
  show ?case
  proof (cases "n < 10")
    case True
    then show ?thesis
      using digit_char_decimal [of n] by (simp add: decimal.simps [of n])
  next
    case False
    have "n mod 10 < 10" by simp
    from digit_char_decimal [OF this] "1.IH" [OF False] False show ?thesis
      by (simp add: decimal.simps [of n])
  qed
qed

lemma length_decimal: "0 < d \<Longrightarrow> v < 10 ^ d \<Longrightarrow> length (decimal v) \<le> d"
proof (induction d arbitrary: v)
  case 0
  then show ?case by simp
next
  case (Suc d)
  show ?case
  proof (cases "v < 10")
    case True
    then show ?thesis by (simp add: decimal.simps [of v])
  next
    case False
    with Suc.prems have d: "0 < d" by (cases d) auto
    from Suc.prems have "v div 10 < 10 ^ d"
      by (simp add: less_mult_imp_div_less mult.commute)
    from Suc.IH [OF d this] False show ?thesis by (simp add: decimal.simps [of v])
  qed
qed

lemma length_zero_pad: "length s \<le> n \<Longrightarrow> length (zero_pad n s) = n"
  by (simp add: zero_pad_def)

lemma example_generate:
  "generate (\<lambda>algorithm secret counter. 1234 + nat counter) ''JBSWY3DPEHPK3PXP''
     \<lparr>Unix = u, zone_offset = 0\<rparr> AlgorithmSHA1 6 30 =
   Inr (zero_pad 6 (decimal ((1234 + nat (u div 30)) mod 1000000)))"
  by (simp add: generate_def AlgorithmSHA1_def)

lemma example_padding:
  "zero_pad 6 (decimal 1234) = ''001234''" "zero_pad 6 (decimal 1235) = ''001235''"
  by (simp_all add: decimal.simps digit_char_def zero_pad_def numeral_2_eq_2)

text \<open>
  C5. Two timestamps in the same period window, that is with the same quotient
  \<open>floor(unix_seconds / period)\<close>, give the same result of \<open>generate\<close> for the same secret,
  algorithm, digit count and period.
\<close>

theorem generate_constant_within_window:
  assumes "Unix t1 div int period = Unix t2 div int period"
  shows "generate hotp secret t1 algorithm digits period =
         generate hotp secret t2 algorithm digits period"
  using assms by (simp add: generate_def)

theorem generate_constant_within_window_witness:
  "generate (\<lambda>algorithm secret counter. 1234 + nat counter) ''JBSWY3DPEHPK3PXP''
     \<lparr>Unix = 30, zone_offset = 0\<rparr> AlgorithmSHA1 6 30 =
   generate (\<lambda>algorithm secret counter. 1234 + nat counter) ''JBSWY3DPEHPK3PXP''
     \<lparr>Unix = 59, zone_offset = 0\<rparr> AlgorithmSHA1 6 30 \<and>
   generate (\<lambda>algorithm secret counter. 1234 + nat counter) ''JBSWY3DPEHPK3PXP''
     \<lparr>Unix = 59, zone_offset = 0\<rparr> AlgorithmSHA1 6 30 = Inr ''001235''"
  using generate_constant_within_window
    [of "\<lparr>Unix = 30, zone_offset = 0\<rparr>" 30 "\<lparr>Unix = 59, zone_offset = 0\<rparr>"
        "\<lambda>algorithm secret counter. 1234 + nat counter" "''JBSWY3DPEHPK3PXP''" AlgorithmSHA1 6]
  by (simp add: example_generate example_padding)

text \<open>
  C6. For a valid configuration (a secret that is not empty, one of the four
  algorithms, a positive digit count, a positive period) and every timestamp,
  \<open>generate\<close> returns a code of exactly \<open>digits\<close> characters, all of them decimal digits:
  the decimal writing of a number below 10 to the power \<open>digits\<close>, with zeros on its left
  up to that length.
\<close>

theorem generate_length_digits:
  assumes "secret \<noteq> []"
    and "algorithm \<in> {AlgorithmSHA1, AlgorithmSHA256, AlgorithmSHA512, AlgorithmMD5}"
    and "0 < digits" and "0 < period"
  shows "\<exists>code v. generate hotp secret t algorithm digits period = Inr code \<and>
           length code = nat digits \<and>
           set code \<subseteq> set ''0123456789'' \<and>
           v < 10 ^ nat digits \<and>
           code = replicate (nat digits - length (decimal v)) (CHR ''0'') @ decimal v"
proof -
  let ?v = "hotp algorithm secret (Unix t div int period) mod 10 ^ nat digits"
  let ?code = "zero_pad (nat digits) (decimal ?v)"
  have g: "generate hotp secret t algorithm digits period = Inr ?code"
    using assms by (simp add: generate_def)
  have v: "?v < 10 ^ nat digits" by simp
  from assms(3) have d: "0 < nat digits" by simp
  have l: "length ?code = nat digits"
    by (rule length_zero_pad) (rule length_decimal [OF d v])
  have s: "set ?code \<subseteq> set ''0123456789''"
    using decimal_digits [of ?v] by (auto simp: zero_pad_def)
  have p: "?code = replicate (nat digits - length (decimal ?v)) (CHR ''0'') @ decimal ?v"
    by (simp add: zero_pad_def)
  from g l s v p show ?thesis by blast
qed

theorem generate_length_digits_witness:
  "generate (\<lambda>algorithm secret counter. 1234 + nat counter) ''JBSWY3DPEHPK3PXP''
     \<lparr>Unix = 10, zone_offset = 0\<rparr> AlgorithmSHA1 6 30 = Inr ''001234'' \<and>
   (\<exists>code. generate (\<lambda>algorithm secret counter. 1234 + nat counter) ''JBSWY3DPEHPK3PXP''
       \<lparr>Unix = 10, zone_offset = 0\<rparr> AlgorithmSHA1 6 30 = Inr code \<and>
     length code = 6 \<and> set code \<subseteq> set ''0123456789'')"
proof -
  have "''JBSWY3DPEHPK3PXP'' \<noteq> []" by simp
  moreover have "AlgorithmSHA1 \<in> {AlgorithmSHA1, AlgorithmSHA256, AlgorithmSHA512, AlgorithmMD5}"
    by simp
  moreover have "(0 :: int) < 6" and "(0 :: nat) < 30" by simp_all
  ultimately obtain code where
    "generate (\<lambda>algorithm secret counter. 1234 + nat counter) ''JBSWY3DPEHPK3PXP''
       \<lparr>Unix = 10, zone_offset = 0\<rparr> AlgorithmSHA1 6 30 = Inr code"
    and "length code = nat 6" and "set code \<subseteq> set ''0123456789''"
    using generate_length_digits
      [of "''JBSWY3DPEHPK3PXP''" AlgorithmSHA1 6 30
          "\<lambda>algorithm secret counter. 1234 + nat counter" "\<lparr>Unix = 10, zone_offset = 0\<rparr>"]
    by blast
  then show ?thesis by (simp add: example_generate example_padding)
qed

end
